theory Spec2Isabelle
  imports Complex_Main "HOL-Library.Multiset"
begin

section \<open>Values shared by the two analysis classes\<close>

text \<open>
  The engine works on numpy arrays of float64 coordinates. Coordinates are modelled as
  reals: every coordinate is finite (the point-set invariant), and rounding is not
  modelled. A point set is the list of its rows.
\<close>

type_synonym point = "real \<times> real"

type_synonym bounds = "real \<times> real \<times> real \<times> real"

text \<open>
  An operation either raises a Python exception across the call (\<open>Inl\<close>) or returns a
  dictionary (\<open>Inr\<close>). A returned dictionary is either the one-key dictionary
  \<^verbatim>\<open>{'error': msg}\<close> or the dictionary of results.
\<close>

datatype exn = ZeroDivisionError | OverflowError | ValueError | IndexError | AttributeError

datatype 'a result = Error string | Ok 'a

type_synonym 'a outcome = "exn + 'a result"

text \<open>\<^verbatim>\<open>int(x)\<close> and \<^verbatim>\<open>astype(int)\<close> on a float: truncation toward zero.\<close>

definition py_int :: "real \<Rightarrow> int" where
  "py_int x = (if 0 \<le> x then \<lfloor>x\<rfloor> else \<lceil>x\<rceil>)"

text \<open>\<^verbatim>\<open>np.clip(a, lo, hi)\<close> is \<^verbatim>\<open>minimum(maximum(a, lo), hi)\<close>, also when \<open>hi < lo\<close>.\<close>

definition np_clip :: "int \<Rightarrow> int \<Rightarrow> int \<Rightarrow> int" where
  "np_clip a lo hi = min (max a lo) hi"

text \<open>\<^verbatim>\<open>np.zeros((rows, cols))\<close>: a negative dimension raises ValueError.\<close>

definition np_zeros :: "int \<Rightarrow> int \<Rightarrow> exn + real list list" where
  "np_zeros rows cols =
     (if rows < 0 \<or> cols < 0 then Inl ValueError
      else Inr (replicate (nat rows) (replicate (nat cols) 0)))"

text \<open>
  An index into an axis of length \<open>n\<close>: numpy accepts \<open>-n \<le> i < n\<close>, a negative
  index counting from the end, and raises IndexError otherwise.
\<close>

definition index_ok :: "int \<Rightarrow> int \<Rightarrow> bool" where
  "index_ok n i = (- n \<le> i \<and> i < n)"

definition wrap_index :: "int \<Rightarrow> int \<Rightarrow> nat" where
  "wrap_index n i = (if i < 0 then nat (n + i) else nat i)"

definition incr_cell :: "int \<times> int \<Rightarrow> int \<times> int \<Rightarrow> real list list \<Rightarrow> real list list" where
  "incr_cell shp rc g =
     (let r = wrap_index (fst shp) (fst rc); c = wrap_index (snd shp) (snd rc)
      in g[r := (g ! r)[c := g ! r ! c + 1]])"

text \<open>
  \<^verbatim>\<open>np.add.at(a, (rows, cols), 1)\<close> on an array of shape \<open>shp\<close>: one increment per index
  pair, repeated pairs counted each time.
\<close>

definition np_add_at :: "int \<times> int \<Rightarrow> real list list \<Rightarrow> (int \<times> int) list \<Rightarrow> exn + real list list" where
  "np_add_at shp g idx =
     (if \<forall>rc \<in> set idx. index_ok (fst shp) (fst rc) \<and> index_ok (snd shp) (snd rc)
      then Inr (fold (incr_cell shp) idx g)
      else Inl IndexError)"

definition amin :: "real list \<Rightarrow> real" where
  "amin xs = Min (set xs)"

definition amax :: "real list \<Rightarrow> real" where
  "amax xs = Max (set xs)"

text \<open>\<^verbatim>\<open>np.unique\<close>: the distinct values, sorted.\<close>

definition np_unique :: "'l::linorder list \<Rightarrow> 'l list" where
  "np_unique ls = sort (remdups ls)"

text \<open>
  The quotient of two Python integers is a float: the float64 nearest to the exact
  quotient, ties going to the even significand. \<open>float64_round x\<close> is that float for a
  real \<open>x\<close>: \<open>x\<close> rounded to 53 significant bits. The exponent range is not modelled;
  the quotients rounded here are 0 or lie between \<open>1 / total\<close> and 1.
\<close>

definition round_half_even :: "real \<Rightarrow> int" where
  "round_half_even y =
     (let f = \<lfloor>y\<rfloor>; d = y - real_of_int f
      in if d < 1 / 2 then f else if 1 / 2 < d then f + 1 else if even f then f else f + 1)"

definition float64_round :: "real \<Rightarrow> real" where
  "float64_round x =
     (if x = 0 then 0
      else let e = \<lfloor>log 2 \<bar>x\<bar>\<rfloor>; ulp = 2 powr (real_of_int e - 52)
           in ulp * real_of_int (round_half_even (x / ulp)))"

section \<open>DensityEstimator\<close>

text \<open>
  \<open>de_numpy_bounds\<close> records whether the bounds tuple holds numpy scalars (bounds derived
  from the centroids) or the caller's Python numbers: the two differ only in what a
  division by a zero cell size does.
\<close>

record density_estimator =
  de_centroids :: "point list"
  de_bounds :: bounds
  de_numpy_bounds :: bool

definition padding :: real where
  "padding = 100"

definition default_bounds :: bounds where
  "default_bounds = (0, 0, 100000, 80000)"

definition DensityEstimator_init :: "point list \<Rightarrow> bounds option \<Rightarrow> density_estimator" where
  "DensityEstimator_init cs b =
     (if b = None \<and> length cs > 0
      then \<lparr>de_centroids = cs,
            de_bounds = (amin (map fst cs) - padding, amin (map snd cs) - padding,
                         amax (map fst cs) + padding, amax (map snd cs) + padding),
            de_numpy_bounds = True\<rparr>
      else \<lparr>de_centroids = cs,
            de_bounds = (case b of None \<Rightarrow> default_bounds | Some bb \<Rightarrow> bb),
            de_numpy_bounds = False\<rparr>)"

text \<open>The dictionary returned by \<^verbatim>\<open>compute_grid_density\<close>; an absent key is \<open>None\<close>.\<close>

record 'l grid_result =
  grid :: "real list list"
  grid_size :: real
  gr_bounds :: bounds
  shape :: "(int \<times> int) option"
  max_count :: "int option"
  total_count :: "int option"
  by_label :: "('l \<times> real list list) list option"

text \<open>
  A zero cell size: Python numbers raise ZeroDivisionError; a numpy scalar divided by
  zero is inf or nan, and \<^verbatim>\<open>int()\<close> of it raises OverflowError or ValueError.
\<close>

definition div_zero_exn :: "bool \<Rightarrow> real \<Rightarrow> exn" where
  "div_zero_exn numpy_scalar numerator =
     (if \<not> numpy_scalar then ZeroDivisionError
      else if numerator = 0 then ValueError else OverflowError)"

definition bin_index :: "real \<Rightarrow> real \<Rightarrow> int \<Rightarrow> real \<Rightarrow> int" where
  "bin_index lo s n x = np_clip (py_int ((x - lo) / s)) 0 (n - 1)"

text \<open>
  The per-label grids: for each distinct label a mask selects the points carrying it; a
  mask whose length differs from the number of points raises IndexError.
\<close>

definition label_grids ::
  "int \<times> int \<Rightarrow> (int \<times> int) list \<Rightarrow> 'l::linorder list \<Rightarrow> exn + ('l \<times> real list list) list" where
  "label_grids shp idx ls =
     (if np_unique ls = [] then Inr []
      else if length ls \<noteq> length idx then Inl IndexError
      else case np_zeros (fst shp) (snd shp) of
             Inl e \<Rightarrow> Inl e
           | Inr z \<Rightarrow>
               Inr (map (\<lambda>label.
                     (label, fold (incr_cell shp)
                               (map snd (filter (\<lambda>(l, rc). l = label) (zip ls idx))) z))
                    (np_unique ls)))"

definition compute_grid_density ::
  "density_estimator \<Rightarrow> real \<Rightarrow> 'l::linorder list option \<Rightarrow> exn + 'l grid_result" where
  "compute_grid_density est gs labels =
     (case de_bounds est of (x_min, y_min, x_max, y_max) \<Rightarrow>
      if gs = 0 then Inl (div_zero_exn (de_numpy_bounds est) (x_max - x_min))
      else
        let n_x = \<lceil>(x_max - x_min) / gs\<rceil>;
            n_y = \<lceil>(y_max - y_min) / gs\<rceil>
        in if length (de_centroids est) = 0
           then (case np_zeros n_y n_x of
                   Inl e \<Rightarrow> Inl e
                 | Inr z \<Rightarrow>
                     Inr \<lparr>grid = z, grid_size = gs, gr_bounds = de_bounds est,
                          shape = None, max_count = None, total_count = None,
                          by_label = None\<rparr>)
           else
             let grid_x = map (\<lambda>p. bin_index x_min gs n_x (fst p)) (de_centroids est);
                 grid_y = map (\<lambda>p. bin_index y_min gs n_y (snd p)) (de_centroids est)
             in case np_zeros n_y n_x of
                  Inl e \<Rightarrow> Inl e
                | Inr z \<Rightarrow>
                   (case np_add_at (n_y, n_x) z (zip grid_y grid_x) of
                      Inl e \<Rightarrow> Inl e
                    | Inr density_grid \<Rightarrow>
                       let res = \<lparr>grid = density_grid, grid_size = gs,
                                  gr_bounds = de_bounds est,
                                  shape = Some (n_y, n_x),
                                  max_count = Some (py_int (amax (concat density_grid))),
                                  total_count = Some (py_int (sum_list (concat density_grid))),
                                  by_label = None\<rparr>
                       in case labels of
                            None \<Rightarrow> Inr res
                          | Some ls \<Rightarrow>
                             (case label_grids (n_y, n_x) (zip grid_y grid_x) ls of
                                Inl e \<Rightarrow> Inl e
                              | Inr bl \<Rightarrow> Inr (res\<lparr>by_label := Some bl\<rparr>))))"


subsection \<open>Smoothed density\<close>

text \<open>
  \<^verbatim>\<open>scipy.ndimage.gaussian_filter\<close> is a parameter of the model: a function from a grid
  and sigma to a grid of the same shape. \<^verbatim>\<open>smoothed.max()\<close> on an array without
  elements raises ValueError.
\<close>

record smoothed_result =
  sr_grid_result :: "unit grid_result"
  smoothed_grid :: "real list list"
  sigma :: real

definition compute_smoothed_density ::
  "(real list list \<Rightarrow> real \<Rightarrow> real list list) \<Rightarrow> density_estimator \<Rightarrow> real \<Rightarrow> real \<Rightarrow>
   exn + smoothed_result" where
  "compute_smoothed_density gaussian_filter est gs sg =
     (case compute_grid_density est gs None of
        Inl e \<Rightarrow> Inl e
      | Inr grid_result \<Rightarrow>
          let density_grid = grid grid_result;
              smoothed = gaussian_filter density_grid sg
          in if concat smoothed = [] then Inl ValueError
             else
               let smoothed' =
                     (if amax (concat smoothed) > 0
                      then map (map (\<lambda>v. v / amax (concat smoothed))) smoothed
                      else smoothed)
               in Inr \<lparr>sr_grid_result = grid_result, smoothed_grid = smoothed', sigma = sg\<rparr>)"

subsection \<open>Kernel density estimation\<close>

text \<open>
  Two library calls are parameters of the model.
  \<^item> \<open>choice g n k\<close> is \<^verbatim>\<open>np.random.choice(n, k, replace=False)\<close> run on numpy's
    process-wide generator in state \<open>g\<close>: it returns the indices drawn and the
    generator's next state. \<^verbatim>\<open>compute_kde\<close> has no seed argument; the generator's state
    is whatever the process left there.
  \<^item> \<open>kde sample bw positions\<close> is \<^verbatim>\<open>gaussian_kde(sample, bw_method=bw)(positions)\<close>:
    the values at the positions, or the message of the exception it raised.
\<close>

definition np_linspace :: "real \<Rightarrow> real \<Rightarrow> int \<Rightarrow> exn + real list" where
  "np_linspace a b n =
     (if n < 0 then Inl ValueError
      else if n = 1 then Inr [a]
      else Inr (map (\<lambda>i. a + real i * (b - a) / (real_of_int n - 1)) [0..<nat n]))"

definition kde_cap :: nat where
  "kde_cap = 50000"

definition kde_sample ::
  "('g \<Rightarrow> nat \<Rightarrow> nat \<Rightarrow> nat list \<times> 'g) \<Rightarrow> point list \<Rightarrow> 'g \<Rightarrow> point list \<times> 'g" where
  "kde_sample choice cs g =
     (if length cs > kde_cap
      then (let (indices, g') = choice g (length cs) kde_cap in (map (\<lambda>i. cs ! i) indices, g'))
      else (cs, g))"

definition reshape2 :: "nat \<Rightarrow> nat \<Rightarrow> 'a list \<Rightarrow> 'a list list" where
  "reshape2 rows cols xs = map (\<lambda>i. take cols (drop (i * cols) xs)) [0..<rows]"

record kde_result =
  density :: "real list list"
  resolution :: int
  kr_bounds :: bounds
  x_coords :: "real list"
  y_coords :: "real list"

definition compute_kde ::
  "('g \<Rightarrow> nat \<Rightarrow> nat \<Rightarrow> nat list \<times> 'g) \<Rightarrow>
   (point list \<Rightarrow> real option \<Rightarrow> point list \<Rightarrow> string + real list) \<Rightarrow>
   density_estimator \<Rightarrow> int \<Rightarrow> real option \<Rightarrow> 'g \<Rightarrow> kde_result outcome \<times> 'g" where
  "compute_kde choice kde est res bandwidth g =
     (if length (de_centroids est) < 10 then (Inr (Error ''Insufficient data for KDE''), g)
      else
        case de_bounds est of (x_min, y_min, x_max, y_max) \<Rightarrow>
        (case np_linspace x_min x_max res of
           Inl e \<Rightarrow> (Inl e, g)
         | Inr x_grid \<Rightarrow>
            (case np_linspace y_min y_max res of
               Inl e \<Rightarrow> (Inl e, g)
             | Inr y_grid \<Rightarrow>
                let positions = concat (map (\<lambda>y. map (\<lambda>x. (x, y)) x_grid) y_grid);
                    (sample, g') = kde_sample choice (de_centroids est) g
                in case kde sample bandwidth positions of
                     Inl msg \<Rightarrow> (Inr (Error (''KDE computation failed: '' @ msg)), g')
                   | Inr vals \<Rightarrow>
                       if length vals \<noteq> nat res * nat res
                       then (Inr (Error ''KDE computation failed: cannot reshape array''), g')
                       else if vals = []
                       then (Inr (Error ''KDE computation failed: zero-size array to reduction operation minimum which has no identity''), g')
                       else
                         let normalized =
                               map (\<lambda>v. (v - amin vals) / (amax vals - amin vals + 1 / 10 ^ 10)) vals
                         in (Inr (Ok \<lparr>density = reshape2 (nat res) (nat res) normalized,
                                      resolution = res, kr_bounds = de_bounds est,
                                      x_coords = x_grid, y_coords = y_grid\<rparr>), g'))))"

section \<open>SpatialStatisticsEngine\<close>

text \<open>
  The engine keeps the centroids, the optional labels and a scipy KDTree over the
  centroids, which is \<^verbatim>\<open>None\<close> for an empty point set. The tree is modelled by the
  points it was built from; its queries are modelled by what they return
  (distances are Euclidean, a radius query includes the boundary).
\<close>

record 'l spatial_engine =
  se_centroids :: "point list"
  se_labels :: "'l list option"
  se_tree :: "point list option"

definition SpatialStatisticsEngine_init :: "point list \<Rightarrow> 'l list option \<Rightarrow> 'l spatial_engine" where
  "SpatialStatisticsEngine_init cs ls =
     \<lparr>se_centroids = cs, se_labels = ls,
      se_tree = (if length cs > 0 then Some cs else None)\<rparr>"

definition dist2d :: "point \<Rightarrow> point \<Rightarrow> real" where
  "dist2d p q = sqrt ((fst p - fst q)\<^sup>2 + (snd p - snd q)\<^sup>2)"


text \<open>\<^verbatim>\<open>tree.query_pairs(r)\<close>: the index pairs \<open>i < j\<close> at distance at most \<open>r\<close>.\<close>

definition tree_query_pairs :: "point list \<Rightarrow> real \<Rightarrow> (nat \<times> nat) list" where
  "tree_query_pairs data r =
     concat (map (\<lambda>i. map (\<lambda>j. (i, j))
                         (filter (\<lambda>j. dist2d (data ! i) (data ! j) \<le> r) [Suc i..<length data]))
                 [0..<length data])"

text \<open>\<^verbatim>\<open>tree.query_ball_tree(tree, r)\<close>: for each point of the tree, the indices of the
  points at distance at most \<open>r\<close>, the point itself among them.\<close>

definition tree_query_ball_tree :: "point list \<Rightarrow> real \<Rightarrow> nat list list" where
  "tree_query_ball_tree data r =
     map (\<lambda>p. filter (\<lambda>j. dist2d p (data ! j) \<le> r) [0..<length data]) data"

subsection \<open>Nearest-neighbour distribution\<close>

definition np_mean :: "real list \<Rightarrow> real" where
  "np_mean xs = sum_list xs / real (length xs)"










subsection \<open>Ripley's K\<close>

record ripley_result =
  radii :: "real list"
  k_observed :: "real list"
  k_expected_csr :: "real list"
  l_function :: "real list"
  is_clustered :: "bool list"

text \<open>The loop over the radii, appending to \<open>k_values\<close> and \<open>l_values\<close>.\<close>

fun ripley_loop ::
  "point list \<Rightarrow> real \<Rightarrow> nat \<Rightarrow> real list \<Rightarrow> real list \<times> real list \<Rightarrow> real list \<times> real list" where
  "ripley_loop data area n [] (k_values, l_values) = (k_values, l_values)"
| "ripley_loop data area n (r # rs) (k_values, l_values) =
     (let pairs = tree_query_pairs data r;
          count = length pairs * 2;
          k_r = (if n > 1 then area * real count / real (n * (n - 1)) else 0);
          l_r = sqrt (k_r / pi) - r
      in ripley_loop data area n rs (k_values @ [k_r], l_values @ [l_r]))"

definition compute_ripleys_k :: "'l spatial_engine \<Rightarrow> real list \<Rightarrow> real \<Rightarrow> ripley_result outcome" where
  "compute_ripleys_k eng rs area =
     (case se_tree eng of
        None \<Rightarrow> Inr (Error ''No spatial data'')
      | Some data \<Rightarrow>
          let n = length (se_centroids eng)
          in if area = 0 then Inl ZeroDivisionError
             else
               let (k_values, l_values) = ripley_loop data area n rs ([], []);
                   csr_k = map (\<lambda>r. pi * r\<^sup>2) rs
               in Inr (Ok \<lparr>radii = rs, k_observed = k_values, k_expected_csr = csr_k,
                           l_function = l_values,
                           is_clustered = map (\<lambda>(k, csr). k > csr) (zip k_values csr_k)\<rparr>))"

subsection \<open>Label colocalization\<close>

text \<open>
  A \<^verbatim>\<open>defaultdict(int)\<close> is an association list with distinct keys, in insertion
  order; a key that is absent reads as 0.
\<close>

fun dd_incr :: "'k \<Rightarrow> ('k \<times> nat) list \<Rightarrow> ('k \<times> nat) list" where
  "dd_incr k [] = [(k, 1)]"
| "dd_incr k ((k', v) # d) = (if k = k' then (k', v + 1) # d else (k', v) # dd_incr k d)"

definition dd_get :: "('k \<times> nat) list \<Rightarrow> 'k \<Rightarrow> nat" where
  "dd_get d k = (case map_of d k of None \<Rightarrow> 0 | Some v \<Rightarrow> v)"

text \<open>The nested \<^verbatim>\<open>defaultdict(lambda: defaultdict(int))\<close>.\<close>

fun dd_incr2 :: "'k \<Rightarrow> 'k \<Rightarrow> ('k \<times> ('k \<times> nat) list) list \<Rightarrow> ('k \<times> ('k \<times> nat) list) list" where
  "dd_incr2 a b [] = [(a, [(b, 1)])]"
| "dd_incr2 a b ((a', row) # d) =
     (if a = a' then (a', dd_incr b row) # d else (a', row) # dd_incr2 a b d)"

definition dd_row :: "('k \<times> ('k \<times> nat) list) list \<Rightarrow> 'k \<Rightarrow> ('k \<times> nat) list" where
  "dd_row d a = (case map_of d a of None \<Rightarrow> [] | Some row \<Rightarrow> row)"

text \<open>The inner loop over the neighbours \<open>j\<close> of point \<open>i\<close>.\<close>

fun neighbor_loop ::
  "'l list \<Rightarrow> nat \<Rightarrow> nat list \<Rightarrow> ('l \<times> ('l \<times> nat) list) list \<Rightarrow> ('l \<times> ('l \<times> nat) list) list" where
  "neighbor_loop ls i [] cooccurrence = cooccurrence"
| "neighbor_loop ls i (j # js) cooccurrence =
     (if i \<noteq> j then neighbor_loop ls i js (dd_incr2 (ls ! i) (ls ! j) cooccurrence)
      else neighbor_loop ls i js cooccurrence)"

text \<open>The outer loop over \<^verbatim>\<open>enumerate(indices)\<close>.\<close>

fun point_loop ::
  "'l list \<Rightarrow> (nat \<times> nat list) list \<Rightarrow>
   ('l \<times> ('l \<times> nat) list) list \<times> ('l \<times> nat) list \<Rightarrow>
   ('l \<times> ('l \<times> nat) list) list \<times> ('l \<times> nat) list" where
  "point_loop ls [] (cooccurrence, label_counts) = (cooccurrence, label_counts)"
| "point_loop ls ((i, neighbors) # rest) (cooccurrence, label_counts) =
     point_loop ls rest (neighbor_loop ls i neighbors cooccurrence, dd_incr (ls ! i) label_counts)"

record 'l coloc_result =
  radius :: real
  colocalization_matrix :: "('l \<times> ('l \<times> real) list) list"
  label_counts :: "('l \<times> nat) list"

text \<open>
  With labels and an empty point set \<^verbatim>\<open>self.tree\<close> is \<^verbatim>\<open>None\<close>, and the call of
  \<^verbatim>\<open>query_ball_tree\<close> on it raises AttributeError. A label array shorter than the point
  set raises IndexError at the first index past its end. A score is the float of the
  division of two integer counts, \<^verbatim>\<open>cooccurrence[label_i][label_j] / total_neighbors\<close>.
\<close>

definition compute_label_colocalization ::
  "'l::linorder spatial_engine \<Rightarrow> real \<Rightarrow> 'l coloc_result outcome" where
  "compute_label_colocalization eng r =
     (case se_labels eng of
        None \<Rightarrow> Inr (Error ''No labels provided'')
      | Some ls \<Rightarrow>
         (let unique_labels = np_unique ls
          in case se_tree eng of
               None \<Rightarrow> Inl AttributeError
             | Some data \<Rightarrow>
                 let indices = tree_query_ball_tree data r
                 in if length ls < length indices then Inl IndexError
                    else
                      let (cooccurrence, counts) =
                            point_loop ls (zip [0..<length indices] indices) ([], [])
                      in Inr (Ok \<lparr>radius = r,
                                  colocalization_matrix =
                                    map (\<lambda>label_i.
                                      (label_i,
                                       let total_neighbors =
                                             sum_list (map snd (dd_row cooccurrence label_i))
                                       in map (\<lambda>label_j.
                                            (label_j,
                                             if total_neighbors > 0
                                             then float64_round
                                                    (real (dd_get (dd_row cooccurrence label_i) label_j)
                                                     / real total_neighbors)
                                             else 0))
                                          unique_labels))
                                      unique_labels,
                                  label_counts = counts\<rparr>)))"

subsection \<open>Hotspot detection\<close>

record hotspot =
  hs_grid_x :: int
  hs_grid_y :: int
  center_x :: real
  center_y :: real
  hs_count :: int
  hs_density :: real

text \<open>The dictionary returned by \<^verbatim>\<open>compute_hotspot_detection\<close>; for an empty point set it
  holds the key \<^verbatim>\<open>hotspots\<close> only.\<close>

record hotspot_result =
  hotspots :: "hotspot list"
  hr_grid_size :: "real option"
  total_cells :: "int option"
  n_hotspots :: "nat option"
  max_density :: "real option"
  mean_density :: "real option"

definition compute_hotspot_detection ::
  "'l spatial_engine \<Rightarrow> real \<Rightarrow> real \<Rightarrow> hotspot_result outcome" where
  "compute_hotspot_detection eng cell_size min_density =
     (let cs = se_centroids eng
      in if length cs = 0
         then Inr (Ok \<lparr>hotspots = [], hr_grid_size = None, total_cells = None,
                       n_hotspots = None, max_density = None, mean_density = None\<rparr>)
         else
           let x_min = amin (map fst cs); y_min = amin (map snd cs);
               x_max = amax (map fst cs); y_max = amax (map snd cs)
           in if cell_size = 0 then Inl (div_zero_exn True (x_max - x_min))
              else
                let n_x = \<lceil>(x_max - x_min) / cell_size\<rceil>;
                    n_y = \<lceil>(y_max - y_min) / cell_size\<rceil>;
                    grid_x = map (\<lambda>p. bin_index x_min cell_size n_x (fst p)) cs;
                    grid_y = map (\<lambda>p. bin_index y_min cell_size n_y (snd p)) cs
                in case np_zeros n_x n_y of
                     Inl e \<Rightarrow> Inl e
                   | Inr z \<Rightarrow>
                      (case np_add_at (n_x, n_y) z (zip grid_x grid_y) of
                         Inl e \<Rightarrow> Inl e
                       | Inr grid_counts \<Rightarrow>
                          let cell_area = cell_size\<^sup>2;
                              grid_density = map (map (\<lambda>c. c / cell_area * 10000)) grid_counts;
                              found =
                                concat (map (\<lambda>ix. concat (map (\<lambda>iy.
                                  if grid_density ! ix ! iy \<ge> min_density
                                  then [\<lparr>hs_grid_x = int ix, hs_grid_y = int iy,
                                         center_x = x_min + (real ix + 1 / 2) * cell_size,
                                         center_y = y_min + (real iy + 1 / 2) * cell_size,
                                         hs_count = py_int (grid_counts ! ix ! iy),
                                         hs_density = grid_density ! ix ! iy\<rparr>]
                                  else []) [0..<nat n_y])) [0..<nat n_x]);
                              sorted_hotspots = sort_key (\<lambda>h. - hs_density h) found
                          in Inr (Ok \<lparr>hotspots = sorted_hotspots,
                                      hr_grid_size = Some cell_size,
                                      total_cells = Some (int (length cs)),
                                      n_hotspots = Some (length sorted_hotspots),
                                      max_density = Some (amax (concat grid_density)),
                                      mean_density =
                                        Some (np_mean (map snd (filter (\<lambda>(c, d). c > 0)
                                                (zip (concat grid_counts) (concat grid_density)))))\<rparr>)))"

section \<open>Auxiliary notions for the proofs\<close>

text \<open>A grid of \<open>R\<close> rows with \<open>C\<close> entries each.\<close>

definition wf_grid :: "nat \<Rightarrow> nat \<Rightarrow> real list list \<Rightarrow> bool" where
  "wf_grid R C g = (length g = R \<and> (\<forall>row \<in> set g. length row = C))"

text \<open>
  A filter that returns its input. \<^verbatim>\<open>gaussian_filter\<close> skips every axis whose sigma is
  at most \<open>1e-15\<close> and copies the input to the output, so at sigma = 0 it is this
  filter; it stands in for the library call where a result is evaluated at sigma = 0.
\<close>

definition identity_filter :: "real list list \<Rightarrow> real \<Rightarrow> real list list" where
  "identity_filter g sg = g"

text \<open>A grid divided by its largest entry.\<close>

definition rescale_to_max :: "real list list \<Rightarrow> real list list" where
  "rescale_to_max g = map (map (\<lambda>v. v / amax (concat g))) g"

text \<open>
  Stand-ins for the two library calls of \<^verbatim>\<open>compute_kde\<close>, used only where the model is
  evaluated at a concrete input. \<open>rotating_choice\<close> draws \<open>k\<close> distinct indices below
  \<open>n\<close>, starting at the generator's state, and advances the state, as a generator
  does between two draws. \<open>flat_kde\<close> returns one value per position. \<open>line_points n\<close>
  is a point set of \<open>n\<close> distinct points.
\<close>

definition rotating_choice :: "nat \<Rightarrow> nat \<Rightarrow> nat \<Rightarrow> nat list \<times> nat" where
  "rotating_choice g n k = (map (\<lambda>i. (i + g) mod n) [0..<k], Suc g)"

definition flat_kde :: "point list \<Rightarrow> real option \<Rightarrow> point list \<Rightarrow> string + real list" where
  "flat_kde sample bw positions = Inr (map (\<lambda>p. 1 / real (length sample)) positions)"

definition line_points :: "nat \<Rightarrow> point list" where
  "line_points n = map (\<lambda>i. (real i, 0)) [0..<n]"




section \<open>The specification's wording, for comparison\<close>

text \<open>
  The specification describes the active bounds with a default region that the caller
  supplies. \<open>spec_active_bounds\<close> follows those words; it is compared below with what
  \<open>DensityEstimator_init\<close> computes.
\<close>

definition spec_active_bounds :: "point list \<Rightarrow> bounds option \<Rightarrow> bounds \<Rightarrow> bounds" where
  "spec_active_bounds cs b default_region =
     (case b of
        Some bb \<Rightarrow> bb
      | None \<Rightarrow>
          if cs \<noteq> []
          then (amin (map fst cs) - 100, amin (map snd cs) - 100,
                amax (map fst cs) + 100, amax (map snd cs) + 100)
          else default_region)"

text \<open>
  The clustering estimator in the specification's words: \<open>pair_count\<close> is the number of
  unordered index pairs at distance at most \<open>r\<close>, and
  \<open>K(r) = area \<cdot> 2 \<cdot> pairCount(r) / (N \<cdot> (N - 1))\<close>.
\<close>

definition pair_count :: "point list \<Rightarrow> real \<Rightarrow> nat" where
  "pair_count cs r = card {(i, j). i < j \<and> j < length cs \<and> dist2d (cs ! i) (cs ! j) \<le> r}"

definition ripley_K :: "point list \<Rightarrow> real \<Rightarrow> real \<Rightarrow> real" where
  "ripley_K cs area r =
     area * (2 * real (pair_count cs r)) / (real (length cs) * (real (length cs) - 1))"





section \<open>Bounds of the density estimator\<close>

text \<open>
  C8, as the code has it. Without explicit bounds a non-empty point set gets its extrema
  padded by 100 on every side; an empty point set gets the fixed region
  (0, 0, 100000, 80000), which is a constant of the constructor and not an argument;
  explicit bounds are kept unchanged.
\<close>

theorem bounds_derivation:
  "(cs \<noteq> [] \<longrightarrow>
      de_bounds (DensityEstimator_init cs None) =
        (Min (fst ` set cs) - 100, Min (snd ` set cs) - 100,
         Max (fst ` set cs) + 100, Max (snd ` set cs) + 100))
   \<and> de_bounds (DensityEstimator_init [] None) = (0, 0, 100000, 80000)
   \<and> de_bounds (DensityEstimator_init cs (Some b)) = b"
  by (simp add: DensityEstimator_init_def amin_def amax_def padding_def default_bounds_def)

theorem bounds_derivation_witness:
  "[(1, 2), (3, 0)] \<noteq> ([] :: point list) \<and>
   de_bounds (DensityEstimator_init [(1, 2), (3, 0)] None) = (- 99, - 100, 103, 102)"
  using bounds_derivation [of "[(1, 2), (3, 0)]"] by simp

text \<open>
  C8 as the specification states it fails: a caller whose default region is
  (0, 0, 1, 1) has no way to pass it, and the empty point set still gets the fixed region.
\<close>

theorem default_region_counterexample:
  "de_bounds (DensityEstimator_init [] None) \<noteq> spec_active_bounds [] None (0, 0, 1, 1)"
  by (simp add: DensityEstimator_init_def spec_active_bounds_def default_bounds_def)

section \<open>Ripley's K\<close>

lemma ripley_loop_maps:
  "ripley_loop data area n rs (ks, ls) =
     (ks @ map (\<lambda>r. if n > 1
                      then area * real (length (tree_query_pairs data r) * 2) / real (n * (n - 1))
                      else 0) rs,
      ls @ map (\<lambda>r. sqrt ((if n > 1
                             then area * real (length (tree_query_pairs data r) * 2)
                                  / real (n * (n - 1))
                             else 0) / pi) - r) rs)"
  by (induction rs arbitrary: ks ls) (simp_all add: Let_def)

lemma set_tree_query_pairs:
  "set (tree_query_pairs data r) =
     {(i, j). i < j \<and> j < length data \<and> dist2d (data ! i) (data ! j) \<le> r}"
  by (force simp: tree_query_pairs_def)

lemma distinct_concat_map:
  "distinct xs \<Longrightarrow> (\<And>x. x \<in> set xs \<Longrightarrow> distinct (f x)) \<Longrightarrow>
   (\<And>x y. x \<in> set xs \<Longrightarrow> y \<in> set xs \<Longrightarrow> x \<noteq> y \<Longrightarrow> set (f x) \<inter> set (f y) = {}) \<Longrightarrow>
   distinct (concat (map f xs))"
proof (induction xs)
  case Nil
  then show ?case by simp
next
  case (Cons a xs)
  have "set (f a) \<inter> set (f y) = {}" if "y \<in> set xs" for y
    using Cons.prems(1) Cons.prems(3) [of a y] that by auto
  then show ?case using Cons by auto
qed

lemma distinct_tree_query_pairs: "distinct (tree_query_pairs data r)"
  unfolding tree_query_pairs_def
  by (rule distinct_concat_map) (auto simp: distinct_map inj_on_def)

lemma length_tree_query_pairs: "length (tree_query_pairs data r) = pair_count data r"
  unfolding pair_count_def set_tree_query_pairs [symmetric]
  by (simp add: distinct_card distinct_tree_query_pairs)

text \<open>
  C5. With at least two points and a positive area, the estimator returns for every
  radius \<open>r\<close> of the sequence: \<open>K(r) = area \<cdot> 2 \<cdot> pairCount(r) / (N \<cdot> (N - 1))\<close> over the
  unordered pairs at distance at most \<open>r\<close>, \<open>L(r) = sqrt (K(r) / \<pi>) - r\<close>, the reference
  value \<open>\<pi> r\<^sup>2\<close>, and a flag that is true exactly when \<open>K(r) > \<pi> r\<^sup>2\<close>. The radii need
  not be increasing for this.
\<close>

theorem ripleys_k_values:
  assumes "2 \<le> length cs" and "0 < area"
  shows "compute_ripleys_k (SpatialStatisticsEngine_init cs ls) rs area =
     Inr (Ok \<lparr>radii = rs,
              k_observed = map (ripley_K cs area) rs,
              k_expected_csr = map (\<lambda>r. pi * r\<^sup>2) rs,
              l_function = map (\<lambda>r. sqrt (ripley_K cs area r / pi) - r) rs,
              is_clustered = map (\<lambda>r. ripley_K cs area r > pi * r\<^sup>2) rs\<rparr>)"
proof -
  have n: "1 < length cs" "cs \<noteq> []" using assms(1) by auto
  have zipmap: "map (\<lambda>(k, csr). csr < k) (zip (map f rs) (map g rs)) = map (\<lambda>r. g r < f r) rs"
    for f g :: "real \<Rightarrow> real"
    by (induction rs) simp_all
  show ?thesis
    using n assms(2)
    by (simp add: compute_ripleys_k_def SpatialStatisticsEngine_init_def ripley_loop_maps zipmap
        Let_def ripley_K_def length_tree_query_pairs of_nat_diff mult.commute [of _ 2])
qed

theorem ripleys_k_values_witness:
  "2 \<le> length [(0, 0), (3, 4) :: point] \<and> (0 :: real) < 100 \<and>
   compute_ripleys_k (SpatialStatisticsEngine_init [(0, 0), (3, 4)] (None :: nat list option))
       [1, 5] 100 =
     Inr (Ok \<lparr>radii = [1, 5],
              k_observed = map (ripley_K [(0, 0), (3, 4)] 100) [1, 5],
              k_expected_csr = [pi, pi * 25],
              l_function = map (\<lambda>r. sqrt (ripley_K [(0, 0), (3, 4)] 100 r / pi) - r) [1, 5],
              is_clustered = map (\<lambda>r. ripley_K [(0, 0), (3, 4)] 100 r > pi * r\<^sup>2) [1, 5]\<rparr>)"
  using ripleys_k_values [of "[(0, 0), (3, 4)]" 100 "None :: nat list option" "[1, 5]"] by simp

text \<open>
  C2, as the code has it. An empty point set gets the error dictionary. A single point
  does not: the guard \<^verbatim>\<open>if n > 1 else 0\<close> sets \<open>K(r) = 0\<close>, so the method returns numbers,
  with \<open>L(r) = - r\<close> and no radius flagged. (With one point and area 0 the division
  \<^verbatim>\<open>n / area\<close> raises.)
\<close>

theorem ripleys_k_small_sets:
  "compute_ripleys_k (SpatialStatisticsEngine_init [] ls) rs area = Inr (Error ''No spatial data'')
   \<and> (area \<noteq> 0 \<longrightarrow>
       compute_ripleys_k (SpatialStatisticsEngine_init [p] ls) rs area =
         Inr (Ok \<lparr>radii = rs,
                  k_observed = map (\<lambda>r. 0) rs,
                  k_expected_csr = map (\<lambda>r. pi * r\<^sup>2) rs,
                  l_function = map (\<lambda>r. - r) rs,
                  is_clustered = map (\<lambda>r. False) rs\<rparr>))"
proof -
  have zipmap: "map (\<lambda>(k, csr). csr < k) (zip (map (\<lambda>r. 0) rs) (map (\<lambda>r. pi * r\<^sup>2) rs))
      = map (\<lambda>r. False) rs"
    by (induction rs) (simp_all add: not_less)
  show ?thesis
    by (simp add: compute_ripleys_k_def SpatialStatisticsEngine_init_def ripley_loop_maps zipmap)
qed

theorem ripleys_k_small_sets_witness:
  "(7 :: real) \<noteq> 0 \<and>
   compute_ripleys_k (SpatialStatisticsEngine_init [(2, 3)] (None :: nat list option)) [4] 7 =
     Inr (Ok \<lparr>radii = [4], k_observed = [0], k_expected_csr = [pi * 16],
              l_function = [- 4], is_clustered = [False]\<rparr>)"
  using ripleys_k_small_sets [of "None :: nat list option" "[4]" 7 "(2, 3)"] by simp

text \<open>C2 as stated fails for a single point: the result is numeric, not an error.\<close>

theorem ripleys_k_single_point_counterexample:
  "compute_ripleys_k (SpatialStatisticsEngine_init [(0, 0)] (None :: nat list option)) [1, 2] 100
   = Inr (Ok \<lparr>radii = [1, 2], k_observed = [0, 0], k_expected_csr = [pi, pi * 4],
              l_function = [- 1, - 2], is_clustered = [False, False]\<rparr>)"
  by (simp add: compute_ripleys_k_def SpatialStatisticsEngine_init_def tree_query_pairs_def)

section \<open>Operations that raise\<close>

text \<open>
  C3 at two inputs. Colocalization on an empty point set with an (empty) label array
  calls \<^verbatim>\<open>query_ball_tree\<close> on \<^verbatim>\<open>None\<close> and raises AttributeError. Hotspot detection on
  a single point has a bounding box of width 0, so \<open>n_x = 0\<close>, the bin index is clipped
  to \<open>-1\<close>, and \<^verbatim>\<open>np.add.at\<close> on an array with 0 rows raises IndexError.
\<close>

theorem operations_raise:
  "compute_label_colocalization (SpatialStatisticsEngine_init [] (Some ([] :: nat list))) 50
     = Inl AttributeError
   \<and> compute_hotspot_detection (SpatialStatisticsEngine_init [(3, 4)] (None :: nat list option))
       100 10 = Inl IndexError"
  by (simp add: compute_label_colocalization_def compute_hotspot_detection_def
      SpatialStatisticsEngine_init_def amin_def amax_def np_zeros_def np_add_at_def
      bin_index_def np_clip_def py_int_def index_ok_def)

section \<open>Density grid\<close>

lemma wf_grid_zeros: "wf_grid R C (replicate R (replicate C 0))"
  by (simp add: wf_grid_def)

lemma wf_grid_incr_cell:
  assumes "wf_grid R C g"
  shows "wf_grid R C (incr_cell shp rc g)"
proof (cases "wrap_index (fst shp) (fst rc) < length g")
  case True
  then have "length (g ! wrap_index (fst shp) (fst rc)) = C"
    using assms by (simp add: wf_grid_def)
  then show ?thesis
    using assms True
    by (auto simp: wf_grid_def incr_cell_def Let_def dest!: set_update_subset_insert [THEN subsetD])
next
  case False
  then show ?thesis using assms by (simp add: incr_cell_def Let_def list_update_beyond)
qed

lemma wf_grid_fold: "wf_grid R C g \<Longrightarrow> wf_grid R C (fold (incr_cell shp) idx g)"
  by (induction idx arbitrary: g) (simp_all add: wf_grid_incr_cell)

lemma incr_cell_nth:
  assumes "wf_grid R C g" "0 \<le> fst rc" "fst rc < int R" "0 \<le> snd rc" "snd rc < int C" "r < R" "c < C"
  shows "incr_cell shp rc g ! r ! c = g ! r ! c + (if rc = (int r, int c) then 1 else 0)"
proof -
  obtain a b where rc: "rc = (a, b)" by (cases rc)
  have la: "nat a < length g" using assms rc by (simp add: wf_grid_def)
  have lb: "nat b < length (g ! nat a)" using assms rc la by (simp add: wf_grid_def)
  show ?thesis
    using assms rc la lb
    by (auto simp: incr_cell_def wrap_index_def Let_def nth_list_update wf_grid_def)
qed

lemma fold_incr_cell_nth:
  assumes "wf_grid R C g" "\<forall>rc \<in> set idx. 0 \<le> fst rc \<and> fst rc < int R \<and> 0 \<le> snd rc \<and> snd rc < int C"
    "r < R" "c < C"
  shows "fold (incr_cell shp) idx g ! r ! c = g ! r ! c + real (length (filter (\<lambda>rc. rc = (int r, int c)) idx))"
  using assms
proof (induction idx arbitrary: g)
  case Nil
  then show ?case by simp
next
  case (Cons a idx)
  have wf: "wf_grid R C (incr_cell shp a g)" using Cons.prems(1) by (rule wf_grid_incr_cell)
  have "fold (incr_cell shp) idx (incr_cell shp a g) ! r ! c =
      incr_cell shp a g ! r ! c + real (length (filter (\<lambda>rc. rc = (int r, int c)) idx))"
    using Cons.IH [OF wf] Cons.prems by simp
  moreover have "incr_cell shp a g ! r ! c = g ! r ! c + (if a = (int r, int c) then 1 else 0)"
    using incr_cell_nth [OF Cons.prems(1), of a r c shp] Cons.prems by simp
  ultimately show ?case by simp
qed

lemma bin_index_range: "1 \<le> n \<Longrightarrow> 0 \<le> bin_index lo s n x \<and> bin_index lo s n x \<le> n - 1"
  by (simp add: bin_index_def np_clip_def)


lemma grid_density_returns:
  assumes gs: "0 < gs" and bx: "x_min < x_max" and b_y: "y_min < y_max"
    and est: "est = \<lparr>de_centroids = cs, de_bounds = (x_min, y_min, x_max, y_max), de_numpy_bounds = nb\<rparr>"
    and lab: "case labels of None \<Rightarrow> True | Some ls \<Rightarrow> length ls = length cs"
    and nx: "n_x = \<lceil>(x_max - x_min) / gs\<rceil>" and ny: "n_y = \<lceil>(y_max - y_min) / gs\<rceil>"
  shows "\<exists>res. compute_grid_density est gs labels = Inr res
      \<and> length (grid res) = nat n_y
      \<and> (\<forall>row \<in> set (grid res). length row = nat n_x)
      \<and> (\<forall>iy < nat n_y. \<forall>ix < nat n_x.
            grid res ! iy ! ix =
              real (length (filter (\<lambda>p. bin_index y_min gs n_y (snd p) = int iy
                                       \<and> bin_index x_min gs n_x (fst p) = int ix) cs)))
      \<and> (cs = [] \<longrightarrow> grid res = replicate (nat n_y) (replicate (nat n_x) 0))"
proof -
  have px: "0 < (x_max - x_min) / gs" and py: "0 < (y_max - y_min) / gs" using gs bx b_y by simp_all
  have n1: "1 \<le> n_x" "1 \<le> n_y" using px py nx ny by linarith+
  let ?idx = "zip (map (\<lambda>p. bin_index y_min gs n_y (snd p)) cs) (map (\<lambda>p. bin_index x_min gs n_x (fst p)) cs)"
  let ?z = "replicate (nat n_y) (replicate (nat n_x) (0::real))"
  have idx: "?idx = map (\<lambda>p. (bin_index y_min gs n_y (snd p), bin_index x_min gs n_x (fst p))) cs"
    by (induction cs) simp_all
  have rng: "\<forall>rc \<in> set ?idx. 0 \<le> fst rc \<and> fst rc < int (nat n_y) \<and> 0 \<le> snd rc \<and> snd rc < int (nat n_x)"
    unfolding idx using bin_index_range [OF n1(1)] bin_index_range [OF n1(2)] n1
    by (auto simp: less_le_trans)
  have ok: "\<forall>rc \<in> set ?idx. index_ok n_y (fst rc) \<and> index_ok n_x (snd rc)"
    using rng n1 by (auto simp: index_ok_def)
  have wf: "wf_grid (nat n_y) (nat n_x) (fold (incr_cell (n_y, n_x)) ?idx ?z)"
    by (rule wf_grid_fold) (rule wf_grid_zeros)
  have cell: "fold (incr_cell (n_y, n_x)) ?idx ?z ! iy ! ix =
      real (length (filter (\<lambda>p. bin_index y_min gs n_y (snd p) = int iy
                                       \<and> bin_index x_min gs n_x (fst p) = int ix) cs))"
    if "iy < nat n_y" "ix < nat n_x" for iy ix
  proof -
    have "fold (incr_cell (n_y, n_x)) ?idx ?z ! iy ! ix =
        ?z ! iy ! ix + real (length (filter (\<lambda>rc. rc = (int iy, int ix)) ?idx))"
      by (rule fold_incr_cell_nth [OF wf_grid_zeros rng that])
    also have "?z ! iy ! ix = 0" using that by simp
    also have "length (filter (\<lambda>rc. rc = (int iy, int ix)) ?idx) =
        length (filter (\<lambda>p. bin_index y_min gs n_y (snd p) = int iy
                                       \<and> bin_index x_min gs n_x (fst p) = int ix) cs)"
      unfolding idx by (simp add: filter_map comp_def)
    finally show ?thesis by simp
  qed
  have lg: "\<exists>bl. label_grids (n_y, n_x) ?idx ls = Inr bl" if "length ls = length cs" for ls :: "'a list"
    using that n1 by (simp add: label_grids_def np_zeros_def)
  show ?thesis
  proof (cases "cs = []")
    case True
    then show ?thesis
      using gs n1 est nx ny px py
      by (simp add: compute_grid_density_def np_zeros_def)
  next
    case False
    show ?thesis
    proof (cases labels)
      case None
      then show ?thesis
        using False gs n1 est wf cell ok nx [symmetric] ny [symmetric] px py
        by (simp add: compute_grid_density_def np_zeros_def np_add_at_def Let_def wf_grid_def)
    next
      case (Some ls)
      then obtain bl where "label_grids (n_y, n_x) ?idx ls = Inr bl"
        using lg [of ls] lab by auto
      then show ?thesis
        using Some False gs n1 est wf cell ok nx [symmetric] ny [symmetric] px py
        by (simp add: compute_grid_density_def np_zeros_def np_add_at_def Let_def wf_grid_def)
    qed
  qed
qed








text \<open>
  C10. For an empty point set the returned dictionary holds the grid, the cell size and
  the bounds only: \<open>shape\<close>, \<open>max_count\<close>, \<open>total_count\<close> and \<open>by_label\<close> are absent,
  also when labels are given. It is returned whenever the cell size is not 0 and
  neither grid dimension is negative. Every dictionary returned for a non-empty point
  set holds \<open>shape\<close>, \<open>max_count\<close> and \<open>total_count\<close>, and \<open>by_label\<close> when labels are
  given.
\<close>

theorem empty_grid_result_keys:
  "(gs \<noteq> 0 \<and> 0 \<le> \<lceil>(x_max - x_min) / gs\<rceil> \<and> 0 \<le> \<lceil>(y_max - y_min) / gs\<rceil> \<longrightarrow>
      compute_grid_density
        \<lparr>de_centroids = [], de_bounds = (x_min, y_min, x_max, y_max), de_numpy_bounds = nb\<rparr>
        gs labels =
      Inr \<lparr>grid = replicate (nat \<lceil>(y_max - y_min) / gs\<rceil>)
                     (replicate (nat \<lceil>(x_max - x_min) / gs\<rceil>) 0),
           grid_size = gs, gr_bounds = (x_min, y_min, x_max, y_max),
           shape = None, max_count = None, total_count = None, by_label = None\<rparr>)
   \<and> (\<forall>res. de_centroids est = [] \<and> compute_grid_density est gs labels = Inr res \<longrightarrow>
          shape res = None \<and> max_count res = None \<and> total_count res = None
          \<and> by_label res = None)
   \<and> (\<forall>res. de_centroids est \<noteq> [] \<and> compute_grid_density est gs labels = Inr res \<longrightarrow>
          shape res \<noteq> None \<and> max_count res \<noteq> None \<and> total_count res \<noteq> None
          \<and> (labels \<noteq> None \<longrightarrow> by_label res \<noteq> None))"
  by (auto simp: compute_grid_density_def np_zeros_def Let_def
      split: prod.splits if_splits sum.splits option.splits)

theorem empty_grid_result_keys_witness:
  "((10 :: real) \<noteq> 0 \<and> (0 :: int) \<le> \<lceil>(10 - 0) / (10 :: real)\<rceil> \<and>
    compute_grid_density (DensityEstimator_init [] (Some (0, 0, 10, 20))) 10 (Some [7 :: nat]) =
      Inr \<lparr>grid = [[0], [0]], grid_size = 10, gr_bounds = (0, 0, 10, 20),
           shape = None, max_count = None, total_count = None, by_label = None\<rparr>)
   \<and> de_centroids (DensityEstimator_init [] (Some (0, 0, 10, 20))) = []
   \<and> (de_centroids (DensityEstimator_init [(5, 5)] (Some (0, 0, 10, 10))) \<noteq> [] \<and>
      compute_grid_density (DensityEstimator_init [(5, 5)] (Some (0, 0, 10, 10))) 10 (Some [7 :: nat]) =
        Inr \<lparr>grid = [[1]], grid_size = 10, gr_bounds = (0, 0, 10, 10), shape = Some (1, 1),
             max_count = Some 1, total_count = Some 1, by_label = Some [(7, [[1]])]\<rparr>)"
  using empty_grid_result_keys [of 10 10 0 20 0 False "Some [7 :: nat]"
      "DensityEstimator_init [(5, 5)] (Some (0, 0, 10, 10))"]
    empty_grid_result_keys [of 10 10 0 20 0 False "Some [7 :: nat]"
      "DensityEstimator_init [] (Some (0, 0, 10, 20))"]
  by (simp add: compute_grid_density_def DensityEstimator_init_def np_zeros_def np_add_at_def
      bin_index_def np_clip_def py_int_def index_ok_def incr_cell_def wrap_index_def amax_def
      label_grids_def np_unique_def numeral_2_eq_2)

section \<open>Smoothing with sigma = 0\<close>

lemma concat_nonempty:
  assumes "length g = R" "\<forall>row \<in> set g. length row = C" "0 < R" "0 < C"
  shows "concat g \<noteq> []"
proof -
  obtain r rs where g: "g = r # rs" using assms(1,3) by (cases g) auto
  then have "length r = C" using assms(2) by simp
  then have "r \<noteq> []" using assms(4) by auto
  then show ?thesis using g by simp
qed

text \<open>
  C4, as the code has it. Let the filter return its input at sigma = 0, as
  \<^verbatim>\<open>gaussian_filter\<close> does. For bounds that span a rectangle and a positive cell size,
  \<^verbatim>\<open>compute_smoothed_density\<close> with sigma = 0 returns, beside the count grid, the count
  grid divided by its largest count when that is positive. The smoothed grid equals the
  count grid when the largest count is 1 and when the point set is empty.
\<close>

theorem smoothing_sigma_zero:
  assumes "0 < gs" and "x_min < x_max" and "y_min < y_max"
    and "est = \<lparr>de_centroids = cs, de_bounds = (x_min, y_min, x_max, y_max), de_numpy_bounds = nb\<rparr>"
    and "\<forall>g. gaussian_filter g 0 = g"
  shows "\<exists>gr. compute_grid_density est gs None = Inr gr
      \<and> compute_smoothed_density gaussian_filter est gs 0 =
          Inr \<lparr>sr_grid_result = gr,
               smoothed_grid = (if amax (concat (grid gr)) > 0 then rescale_to_max (grid gr)
                                else grid gr),
               sigma = 0\<rparr>
      \<and> (amax (concat (grid gr)) = 1 \<or> cs = [] \<longrightarrow>
           compute_smoothed_density gaussian_filter est gs 0 =
             Inr \<lparr>sr_grid_result = gr, smoothed_grid = grid gr, sigma = 0\<rparr>)"
proof -
  define n_x where "n_x = \<lceil>(x_max - x_min) / gs\<rceil>"
  define n_y where "n_y = \<lceil>(y_max - y_min) / gs\<rceil>"
  have px: "0 < (x_max - x_min) / gs" and py: "0 < (y_max - y_min) / gs" using assms by simp_all
  have n1: "1 \<le> n_x" "1 \<le> n_y" using px py n_x_def n_y_def by linarith+
  have lab: "case (None :: unit list option) of None \<Rightarrow> True | Some ls \<Rightarrow> length ls = length cs"
    by simp
  obtain gr where gr: "compute_grid_density est gs (None :: unit list option) = Inr gr"
    and len: "length (grid gr) = nat n_y"
    and rows: "\<forall>row \<in> set (grid gr). length row = nat n_x"
    and empty: "cs = [] \<longrightarrow> grid gr = replicate (nat n_y) (replicate (nat n_x) 0)"
    using grid_density_returns [OF assms(1,2,3,4) lab n_x_def n_y_def] by blast
  have ne: "concat (grid gr) \<noteq> []"
    using concat_nonempty [OF len rows] n1 by simp
  have main: "compute_smoothed_density gaussian_filter est gs 0 =
          Inr \<lparr>sr_grid_result = gr,
               smoothed_grid = (if amax (concat (grid gr)) > 0 then rescale_to_max (grid gr)
                                else grid gr),
               sigma = 0\<rparr>"
    using gr ne assms(5) by (simp add: compute_smoothed_density_def rescale_to_max_def Let_def)
  have one: "rescale_to_max (grid gr) = grid gr" if "amax (concat (grid gr)) = 1"
    using that by (simp add: rescale_to_max_def map_idI)
  have zero: "\<not> amax (concat (grid gr)) > 0" if "cs = []"
  proof -
    have "set (concat (grid gr)) = {0}"
      using that empty n1 by (auto simp: set_replicate_conv_if)
    then show ?thesis by (simp add: amax_def)
  qed
  show ?thesis using gr main one zero by auto
qed


theorem smoothing_sigma_zero_witness:
  "(0 :: real) < 10 \<and> (0 :: real) < 10 \<and> (\<forall>g. identity_filter g 0 = g) \<and>
   compute_smoothed_density identity_filter
       \<lparr>de_centroids = [(5, 5)], de_bounds = (0, 0, 10, 10), de_numpy_bounds = False\<rparr> 10 0 =
     Inr \<lparr>sr_grid_result =
            \<lparr>grid = [[1]], grid_size = 10, gr_bounds = (0, 0, 10, 10), shape = Some (1, 1),
             max_count = Some 1, total_count = Some 1, by_label = None\<rparr>,
          smoothed_grid = [[1]], sigma = 0\<rparr>"
  using smoothing_sigma_zero [where gs = 10 and x_min = 0 and x_max = 10 and y_min = 0
      and y_max = 10 and cs = "[(5, 5)]" and nb = False and gaussian_filter = identity_filter
      and est = "\<lparr>de_centroids = [(5, 5)], de_bounds = (0, 0, 10, 10),
                   de_numpy_bounds = False\<rparr>"]
  by (simp add: identity_filter_def compute_grid_density_def np_zeros_def np_add_at_def
      bin_index_def np_clip_def py_int_def index_ok_def incr_cell_def wrap_index_def amax_def
      rescale_to_max_def)

text \<open>
  C4 as stated fails when a cell holds two points: the count grid is \<open>[[2]]\<close>, the
  smoothed grid \<open>[[1]]\<close>.
\<close>

theorem smoothing_sigma_zero_counterexample:
  "compute_smoothed_density identity_filter
       (DensityEstimator_init [(5, 5), (6, 6)] (Some (0, 0, 10, 10))) 10 0 =
     Inr \<lparr>sr_grid_result =
            \<lparr>grid = [[2]], grid_size = 10, gr_bounds = (0, 0, 10, 10), shape = Some (1, 1),
             max_count = Some 2, total_count = Some 2, by_label = None\<rparr>,
          smoothed_grid = [[1]], sigma = 0\<rparr>"
  by (simp add: compute_smoothed_density_def identity_filter_def compute_grid_density_def
      DensityEstimator_init_def np_zeros_def np_add_at_def bin_index_def np_clip_def py_int_def
      index_ok_def incr_cell_def wrap_index_def amax_def)

section \<open>Kernel density estimation and the random generator\<close>

lemma length_line_points: "length (line_points n) = n"
  by (simp add: line_points_def)

lemma nth_line_points: "i < n \<Longrightarrow> line_points n ! i = (real i, 0)"
  by (simp add: line_points_def)

lemma kde_sample_below_cap: "length cs \<le> kde_cap \<Longrightarrow> kde_sample choice cs g = (cs, g)"
  by (simp add: kde_sample_def)

lemma kde_sample_rotating_hd:
  assumes "kde_cap < length cs"
  shows "fst (kde_sample rotating_choice cs g) ! 0 = cs ! (g mod length cs)"
    and "snd (kde_sample rotating_choice cs g) = Suc g"
proof -
  have "0 < kde_cap" by (simp add: kde_cap_def)
  then show "fst (kde_sample rotating_choice cs g) ! 0 = cs ! (g mod length cs)"
    using assms by (simp add: kde_sample_def rotating_choice_def)
  show "snd (kde_sample rotating_choice cs g) = Suc g"
    using assms by (simp add: kde_sample_def rotating_choice_def)
qed

lemma rotating_choice_period: "fst (rotating_choice (g + n) n k) = fst (rotating_choice g n k)"
  by (simp add: rotating_choice_def add.assoc [symmetric])

text \<open>
  C1, as the code has it. \<^verbatim>\<open>compute_kde\<close> takes no seed. With at most 50000 points the
  generator is not touched and the result is the same whatever its state. Above the cap
  the subsample comes from numpy's process-wide generator: two invocations give the same
  result whenever the generator draws the same indices for them.
\<close>

theorem kde_reproducibility:
  "(length (de_centroids est) \<le> 50000 \<longrightarrow>
      fst (compute_kde choice kde est res bw g1) = fst (compute_kde choice kde est res bw g2)
      \<and> snd (compute_kde choice kde est res bw g1) = g1)
   \<and> (fst (choice g1 (length (de_centroids est)) 50000) =
        fst (choice g2 (length (de_centroids est)) 50000) \<longrightarrow>
      fst (compute_kde choice kde est res bw g1) = fst (compute_kde choice kde est res bw g2))"
proof -
  have a: "fst (compute_kde choice kde est res bw g1) = fst (compute_kde choice kde est res bw g2)
      \<and> snd (compute_kde choice kde est res bw g1) = g1"
    if "length (de_centroids est) \<le> 50000"
    using that
    by (simp add: compute_kde_def kde_sample_def kde_cap_def Let_def
        split: prod.splits sum.splits)
  have b: "fst (compute_kde choice kde est res bw g1) = fst (compute_kde choice kde est res bw g2)"
    if "fst (choice g1 (length (de_centroids est)) 50000) =
        fst (choice g2 (length (de_centroids est)) 50000)"
  proof -
    have "fst (kde_sample choice (de_centroids est) g1) = fst (kde_sample choice (de_centroids est) g2)"
      using that by (auto simp: kde_sample_def kde_cap_def split: prod.splits)
    then show ?thesis
      by (auto simp: compute_kde_def Let_def split: prod.splits sum.splits)
  qed
  show ?thesis using a b by blast
qed

theorem kde_reproducibility_witness:
  "length (de_centroids (DensityEstimator_init (line_points 12) None)) \<le> 50000 \<and>
   fst (compute_kde rotating_choice flat_kde (DensityEstimator_init (line_points 12) None) 2 None 0)
     = fst (compute_kde rotating_choice flat_kde (DensityEstimator_init (line_points 12) None) 2 None 7)
   \<and> snd (compute_kde rotating_choice flat_kde (DensityEstimator_init (line_points 12) None) 2 None 0) = 0
   \<and> fst (rotating_choice 50001 (length (de_centroids (DensityEstimator_init (line_points 50001) None))) 50000)
       = fst (rotating_choice 0 (length (de_centroids (DensityEstimator_init (line_points 50001) None))) 50000)
   \<and> fst (compute_kde rotating_choice flat_kde (DensityEstimator_init (line_points 50001) None) 2 None 50001)
     = fst (compute_kde rotating_choice flat_kde (DensityEstimator_init (line_points 50001) None) 2 None 0)"
proof -
  have len: "length (de_centroids (DensityEstimator_init (line_points n) None)) = n" for n
    by (simp add: DensityEstimator_init_def length_line_points)
  have per: "fst (rotating_choice 50001 50001 50000) = fst (rotating_choice 0 50001 50000)"
    using rotating_choice_period [of 0 50001 50000] by simp
  note a = kde_reproducibility [of "DensityEstimator_init (line_points 12) None" rotating_choice
      flat_kde 2 None 0 7]
  note b = kde_reproducibility [where est = "DensityEstimator_init (line_points 50001) None"
      and choice = rotating_choice and kde = flat_kde and res = 2 and bw = None
      and ?g1.0 = 50001 and ?g2.0 = 0]
  have 1: "fst (compute_kde rotating_choice flat_kde (DensityEstimator_init (line_points 12) None) 2 None 0)
     = fst (compute_kde rotating_choice flat_kde (DensityEstimator_init (line_points 12) None) 2 None 7)
   \<and> snd (compute_kde rotating_choice flat_kde (DensityEstimator_init (line_points 12) None) 2 None 0) = 0"
    using a by (simp add: len)
  have 2: "fst (compute_kde rotating_choice flat_kde (DensityEstimator_init (line_points 50001) None) 2 None 50001)
     = fst (compute_kde rotating_choice flat_kde (DensityEstimator_init (line_points 50001) None) 2 None 0)"
    using b per by (simp add: len)
  show ?thesis using 1 2 per by (simp add: len)
qed

text \<open>
  C1 as stated fails above the cap: on 50001 points, the invocation that follows another
  one finds the generator in its next state and draws a different subsample from the
  same input.
\<close>

theorem kde_subsample_counterexample:
  "fst (kde_sample rotating_choice (line_points 50001)
          (snd (kde_sample rotating_choice (line_points 50001) 0)))
   \<noteq> fst (kde_sample rotating_choice (line_points 50001) 0)"
proof -
  have c: "kde_cap < length (line_points 50001)"
    by (simp add: kde_cap_def length_line_points)
  have "fst (kde_sample rotating_choice (line_points 50001)
          (snd (kde_sample rotating_choice (line_points 50001) 0))) ! 0 = (1, 0)"
    using kde_sample_rotating_hd [OF c] by (simp add: length_line_points nth_line_points)
  moreover have "fst (kde_sample rotating_choice (line_points 50001) 0) ! 0 = (0, 0)"
    using kde_sample_rotating_hd(1) [OF c, of 0] by (simp add: length_line_points nth_line_points)
  ultimately show ?thesis by (metis prod.inject zero_neq_one)
qed

section \<open>Nearest-neighbour distribution\<close>



















section \<open>Label colocalization\<close>
































end
